theory Spec2Isabelle
  imports Complex_Main
begin

section \<open>Data model (src/types/index.ts)\<close>

text \<open>
  A TypeScript \<^verbatim>\<open>number\<close> that holds an embedding component or a similarity score is a
  HOL \<^typ>\<open>real\<close>. The code computes in IEEE-754 doubles, which round, overflow to
  infinity and NaN and underflow to zero; the reals do none of that, so nothing is proved
  below about the value of a similarity, only about how scores are compared, filtered and
  ordered. Identifiers, timestamps and limits are integers. An optional field (\<^verbatim>\<open>field?: T\<close>) is an
  \<^typ>\<open>'a option\<close>, \<^verbatim>\<open>undefined\<close> being \<^const>\<open>None\<close>. A metadata object
  (\<^verbatim>\<open>Record<string, any>\<close>) is an association list with distinct keys in insertion order,
  its values strings, as the display name is that the one caller of the repository passes.
\<close>

type_synonym metadata_map = "(string \<times> string) list"

record MemoryEntry =
  entry_id :: "nat option"
  timestamp :: int
  userInput :: string
  botResponse :: string
  embedding :: "real list"
  channelId :: "string option"
  userId :: "string option"
  userName :: "string option"
  metadata :: "metadata_map option"

record MemorySearchResult =
  entry :: MemoryEntry
  similarity :: real

record Config =
  embeddingsProvider :: string
  embeddingsModel :: string
  databasePath :: string
  maxMemoryResults :: int
  similarityThreshold :: real

text \<open>
  Every \<^verbatim>\<open>throw\<close> of the source is a value of this type. The source throws plain
  \<^verbatim>\<open>Error\<close> objects told apart by their message; a constructor with an argument wraps
  the cause, as the message of the rethrown error embeds it.
\<close>

datatype error =
    ConnectionTestFailed
  | ApiError
  | DatabaseOpenFailed
  | DatabaseNotInitialized
  | SqlError
  | VectorDimensionsMustMatch
  | InvalidTimeValue
  | MemoryServiceNotInitialized
  | InitializationFailed error
  | FailedToStoreMemory error
  | FailedToGetRecentMemories error
  | FailedToGetStats error
  | MaintenanceFailed error
  | FailedToDeleteMemory error

text \<open>JavaScript truthiness of an optional string: \<^verbatim>\<open>undefined\<close>, \<^verbatim>\<open>null\<close> and the
  empty string are falsy.\<close>

definition truthy :: "string option \<Rightarrow> bool" where
  "truthy s = (case s of None \<Rightarrow> False | Some t \<Rightarrow> t \<noteq> [])"

text \<open>\<^verbatim>\<open>x || null\<close> on the way into the table and \<^verbatim>\<open>x || undefined\<close> on the way out.\<close>

definition or_null :: "string option \<Rightarrow> string option" where
  "or_null s = (if truthy s then s else None)"

section \<open>Cosine similarity (VectorStore.calculateCosineSimilarity)\<close>

text \<open>The first loop: \<^verbatim>\<open>for (i = 0; i < a.length; i++) dotProduct += a[i] * b[i]\<close>.\<close>

function dotProduct_loop :: "real list \<Rightarrow> real list \<Rightarrow> nat \<Rightarrow> real \<Rightarrow> real" where
  "dotProduct_loop a b i dotProduct =
     (if i < length a then dotProduct_loop a b (Suc i) (dotProduct + a ! i * b ! i)
      else dotProduct)"
  by pat_completeness auto
termination
  by (relation "measure (\<lambda>(a, b, i, d). length a - i)") auto

text \<open>The second loop accumulates both squared magnitudes at once.\<close>

function magnitude_loop :: "real list \<Rightarrow> real list \<Rightarrow> nat \<Rightarrow> real \<times> real \<Rightarrow> real \<times> real" where
  "magnitude_loop a b i m =
     (if i < length a
      then magnitude_loop a b (Suc i) (fst m + a ! i * a ! i, snd m + b ! i * b ! i)
      else m)"
  by pat_completeness auto
termination
  by (relation "measure (\<lambda>(a, b, i, m). length a - i)") auto

declare dotProduct_loop.simps [simp del] magnitude_loop.simps [simp del]

definition calculateCosineSimilarity :: "real list \<Rightarrow> real list \<Rightarrow> error + real" where
  "calculateCosineSimilarity a b =
     (if length a \<noteq> length b then Inl VectorDimensionsMustMatch
      else
        let dotProduct = dotProduct_loop a b 0 0;
            m = magnitude_loop a b 0 (0, 0);
            magnitudeA = sqrt (fst m);
            magnitudeB = sqrt (snd m)
        in if magnitudeA = 0 \<or> magnitudeB = 0 then Inr 0
           else Inr (dotProduct / (magnitudeA * magnitudeB)))"

subsection \<open>The formula of the specification\<close>

text \<open>The specification's words: \<^verbatim>\<open>dot(a,b) / (|a| * |b|)\<close>, and \<^verbatim>\<open>0\<close> when a magnitude
  is zero.\<close>

definition dot :: "real list \<Rightarrow> real list \<Rightarrow> real" where
  "dot a b = (\<Sum>(x, y) \<leftarrow> zip a b. x * y)"

definition magnitude :: "real list \<Rightarrow> real" where
  "magnitude a = sqrt (\<Sum>x \<leftarrow> a. x * x)"

definition cosine_spec :: "real list \<Rightarrow> real list \<Rightarrow> real" where
  "cosine_spec a b =
     (if magnitude a = 0 \<or> magnitude b = 0 then 0 else dot a b / (magnitude a * magnitude b))"

section \<open>The table (VectorStore.createTables)\<close>

record row =
  row_id :: nat
  row_timestamp :: int
  user_input :: string
  bot_response :: string
  row_embedding :: "real list"
  channel_id :: "string option"
  user_id :: "string option"
  user_name :: "string option"
  row_metadata :: "metadata_map option"

text \<open>The \<^verbatim>\<open>memories\<close> table in rowid order, and the largest rowid ever handed out
  (the column is \<^verbatim>\<open>INTEGER PRIMARY KEY AUTOINCREMENT\<close>). The embedding and metadata
  columns hold JSON text; a cell is identified with the value that text denotes.\<close>

record database =
  memories :: "row list"
  sqlite_sequence :: nat

section \<open>The outside world\<close>

text \<open>
  What the code reads from outside, fixed for the length of one operation: the outcome of the
  embedding backend's calls, of opening the database file (it cannot be opened, there is no
  readable file, or an image is loaded), of running SQL and of writing the file, the clock,
  and the two number-to-text conversions of the JavaScript library that the prompt template
  uses.
\<close>

datatype open_result = OpenFails | NoFile | Loaded database

record world =
  testConnection_ok :: bool
  provider_embedding :: "string \<Rightarrow> real list option"
  open_database :: open_result
  sql_throws :: bool
  writeFile_ok :: bool
  date_now :: int
  toFixed3 :: "real \<Rightarrow> string"
  iso_text :: "int \<Rightarrow> string"

section \<open>Sorting and slicing\<close>

text \<open>
  \<^verbatim>\<open>Array.prototype.sort(compareFn)\<close> is a stable sort: two elements change their order
  only when \<^verbatim>\<open>compareFn\<close> is positive on them. The same function stands for SQL's
  \<^verbatim>\<open>ORDER BY\<close>, which fixes no order among equal keys: SQLite may return rows of
  equal timestamp in another order than this function, and nothing below depends on it.
\<close>

fun insert_cmp :: "('a \<Rightarrow> 'a \<Rightarrow> 'b::linordered_idom) \<Rightarrow> 'a \<Rightarrow> 'a list \<Rightarrow> 'a list" where
  "insert_cmp cmp x [] = [x]"
| "insert_cmp cmp x (y # ys) = (if cmp x y \<le> 0 then x # y # ys else y # insert_cmp cmp x ys)"

definition array_sort :: "('a \<Rightarrow> 'a \<Rightarrow> 'b::linordered_idom) \<Rightarrow> 'a list \<Rightarrow> 'a list" where
  "array_sort cmp xs = foldr (insert_cmp cmp) xs []"

text \<open>\<^verbatim>\<open>xs.slice(0, n)\<close>: a negative \<^verbatim>\<open>n\<close> counts from the end of the array.\<close>

definition slice0 :: "'a list \<Rightarrow> int \<Rightarrow> 'a list" where
  "slice0 xs n = (if n < 0 then take (nat (int (length xs) + n)) xs else take (nat n) xs)"

text \<open>SQL's \<^verbatim>\<open>LIMIT n\<close>: a negative \<^verbatim>\<open>n\<close> is no limit.\<close>

definition sql_limit :: "int \<Rightarrow> 'a list \<Rightarrow> 'a list" where
  "sql_limit n xs = (if n < 0 then xs else take (nat n) xs)"

section \<open>VectorStore\<close>

text \<open>
  \<^verbatim>\<open>db\<close> and \<^verbatim>\<open>initialized\<close> are the fields of the class. \<open>file_image\<close> is the
  database image that the last successful read or write of \<^verbatim>\<open>databasePath\<close> moved
  between the file and the process: the last successful persist.
\<close>

record VectorStore =
  db :: "database option"
  vs_initialized :: bool
  file_image :: "database option"

definition empty_database :: database where
  "empty_database = \<lparr>memories = [], sqlite_sequence = 0\<rparr>"

text \<open>An error of \<^verbatim>\<open>initSqlJs\<close>, of \<^verbatim>\<open>new SQL.Database\<close> or of
  \<^verbatim>\<open>createTables\<close> is rethrown, the store left uninitialized; a file that cannot be
  read gives a new, empty database.\<close>

definition ensureInitialized_vs :: "world \<Rightarrow> VectorStore \<Rightarrow> error + VectorStore" where
  "ensureInitialized_vs w vs =
     (if vs_initialized vs \<and> db vs \<noteq> None then Inr vs
      else case open_database w of
             OpenFails \<Rightarrow> Inl DatabaseOpenFailed
           | NoFile \<Rightarrow> Inr (vs\<lparr>db := Some empty_database, vs_initialized := True,
                                file_image := None\<rparr>)
           | Loaded d \<Rightarrow> Inr (vs\<lparr>db := Some d, vs_initialized := True,
                                  file_image := Some d\<rparr>))"

text \<open>\<^verbatim>\<open>saveDatabase\<close> catches the error of \<^verbatim>\<open>fs.writeFile\<close> and logs it.\<close>

definition saveDatabase :: "world \<Rightarrow> VectorStore \<Rightarrow> VectorStore" where
  "saveDatabase w vs =
     (case db vs of
        None \<Rightarrow> vs
      | Some d \<Rightarrow> if writeFile_ok w then vs\<lparr>file_image := Some d\<rparr> else vs)"

definition next_rowid :: "database \<Rightarrow> nat" where
  "next_rowid d = Suc (max (sqlite_sequence d) (fold max (map row_id (memories d)) 0))"

definition insert_memory :: "MemoryEntry \<Rightarrow> database \<Rightarrow> nat \<times> database" where
  "insert_memory e d =
     (let i = next_rowid d;
          r = \<lparr>row_id = i, row_timestamp = timestamp e, user_input = userInput e,
               bot_response = botResponse e, row_embedding = embedding e,
               channel_id = or_null (channelId e), user_id = or_null (userId e),
               user_name = or_null (userName e), row_metadata = metadata e\<rparr>
      in (i, d\<lparr>memories := memories d @ [r], sqlite_sequence := i\<rparr>))"

definition storeMemory_vs :: "world \<Rightarrow> VectorStore \<Rightarrow> MemoryEntry \<Rightarrow> (error + MemoryEntry) \<times> VectorStore" where
  "storeMemory_vs w vs e =
     (case ensureInitialized_vs w vs of
        Inl err \<Rightarrow> (Inl err, vs)
      | Inr vs1 \<Rightarrow>
          (case db vs1 of
             None \<Rightarrow> (Inl DatabaseNotInitialized, vs1)
           | Some d \<Rightarrow>
               if sql_throws w then (Inl (FailedToStoreMemory SqlError), vs1)
               else let (i, d') = insert_memory e d;
                        vs2 = saveDatabase w (vs1\<lparr>db := Some d'\<rparr>)
                    in (Inr (e\<lparr>entry_id := Some i\<rparr>), vs2)))"

definition row_matches :: "string option \<Rightarrow> string option \<Rightarrow> row \<Rightarrow> bool" where
  "row_matches channelId' userId' r =
     ((if truthy channelId' then channel_id r = channelId' else True)
      \<and> (if truthy userId' then user_id r = userId' else True))"

definition select_memories :: "database \<Rightarrow> string option \<Rightarrow> string option \<Rightarrow> row list" where
  "select_memories d channelId' userId' =
     array_sort (\<lambda>a b. row_timestamp b - row_timestamp a)
       (filter (row_matches channelId' userId') (memories d))"

definition entry_of_row :: "row \<Rightarrow> MemoryEntry" where
  "entry_of_row r =
     \<lparr>entry_id = Some (row_id r), timestamp = row_timestamp r, userInput = user_input r,
      botResponse = bot_response r, embedding = row_embedding r,
      channelId = or_null (channel_id r), userId = or_null (user_id r),
      userName = or_null (user_name r), metadata = row_metadata r\<rparr>"

text \<open>The loop over the selected rows. An error of \<^verbatim>\<open>calculateCosineSimilarity\<close> leaves
  the loop: nothing in its body catches it.\<close>

fun score_rows :: "Config \<Rightarrow> real list \<Rightarrow> row list \<Rightarrow> MemorySearchResult list
    \<Rightarrow> error + MemorySearchResult list" where
  "score_rows cfg queryEmbedding [] results = Inr results"
| "score_rows cfg queryEmbedding (r # rs) results =
     (case calculateCosineSimilarity queryEmbedding (row_embedding r) of
        Inl err \<Rightarrow> Inl err
      | Inr s \<Rightarrow>
          score_rows cfg queryEmbedding rs
            (if similarityThreshold cfg \<le> s
             then results @ [\<lparr>entry = entry_of_row r, similarity = s\<rparr>]
             else results))"

definition limit_or_default :: "Config \<Rightarrow> int option \<Rightarrow> int" where
  "limit_or_default cfg limit = (case limit of None \<Rightarrow> maxMemoryResults cfg | Some n \<Rightarrow> n)"

text \<open>Whatever is thrown inside the \<^verbatim>\<open>try\<close> block of \<^verbatim>\<open>searchSimilar\<close> is caught
  there and the empty array returned; \<^verbatim>\<open>ensureInitialized\<close> runs before the block.\<close>

definition searchSimilar :: "Config \<Rightarrow> world \<Rightarrow> VectorStore \<Rightarrow> real list \<Rightarrow> int option
    \<Rightarrow> string option \<Rightarrow> string option \<Rightarrow> (error + MemorySearchResult list) \<times> VectorStore" where
  "searchSimilar cfg w vs queryEmbedding limit channelId' userId' =
     (case ensureInitialized_vs w vs of
        Inl err \<Rightarrow> (Inl err, vs)
      | Inr vs1 \<Rightarrow>
          (case db vs1 of
             None \<Rightarrow> (Inl DatabaseNotInitialized, vs1)
           | Some d \<Rightarrow>
               if sql_throws w then (Inr [], vs1)
               else
                 (case score_rows cfg queryEmbedding (select_memories d channelId' userId') [] of
                    Inl err \<Rightarrow> (Inr [], vs1)
                  | Inr results \<Rightarrow>
                      (Inr (slice0 (array_sort (\<lambda>a b. similarity b - similarity a) results)
                              (limit_or_default cfg limit)), vs1))))"

definition getMemoryCount :: "world \<Rightarrow> VectorStore \<Rightarrow> (error + nat) \<times> VectorStore" where
  "getMemoryCount w vs =
     (case ensureInitialized_vs w vs of
        Inl err \<Rightarrow> (Inl err, vs)
      | Inr vs1 \<Rightarrow>
          (case db vs1 of
             None \<Rightarrow> (Inr 0, vs1)
           | Some d \<Rightarrow> (Inr (if sql_throws w then 0 else length (memories d)), vs1)))"

definition getRecentMemories_vs :: "Config \<Rightarrow> world \<Rightarrow> VectorStore \<Rightarrow> int option
    \<Rightarrow> string option \<Rightarrow> string option \<Rightarrow> (error + MemoryEntry list) \<times> VectorStore" where
  "getRecentMemories_vs cfg w vs limit channelId' userId' =
     (case ensureInitialized_vs w vs of
        Inl err \<Rightarrow> (Inl err, vs)
      | Inr vs1 \<Rightarrow>
          (case db vs1 of
             None \<Rightarrow> (Inr [], vs1)
           | Some d \<Rightarrow>
               if sql_throws w then (Inr [], vs1)
               else (Inr (map entry_of_row
                            (sql_limit (limit_or_default cfg limit)
                               (select_memories d channelId' userId'))), vs1)))"

definition deleteMemory_vs :: "world \<Rightarrow> VectorStore \<Rightarrow> int \<Rightarrow> (error + bool) \<times> VectorStore" where
  "deleteMemory_vs w vs i =
     (case ensureInitialized_vs w vs of
        Inl err \<Rightarrow> (Inl err, vs)
      | Inr vs1 \<Rightarrow>
          (case db vs1 of
             None \<Rightarrow> (Inr False, vs1)
           | Some d \<Rightarrow>
               if sql_throws w then (Inr False, vs1)
               else
                 let kept = filter (\<lambda>r. int (row_id r) \<noteq> i) (memories d);
                     changes = length (memories d) - length kept;
                     vs2 = vs1\<lparr>db := Some (d\<lparr>memories := kept\<rparr>)\<rparr>
                 in if 0 < changes then (Inr True, saveDatabase w vs2) else (Inr False, vs2)))"

text \<open>\<^verbatim>\<open>VACUUM\<close> and \<^verbatim>\<open>ANALYZE\<close> change no row.\<close>

definition maintenance :: "world \<Rightarrow> VectorStore \<Rightarrow> (error + unit) \<times> VectorStore" where
  "maintenance w vs =
     (case ensureInitialized_vs w vs of
        Inl err \<Rightarrow> (Inl err, vs)
      | Inr vs1 \<Rightarrow>
          (case db vs1 of
             None \<Rightarrow> (Inr (), vs1)
           | Some d \<Rightarrow> if sql_throws w then (Inr (), vs1) else (Inr (), saveDatabase w vs1)))"

section \<open>EmbeddingsService\<close>

definition testConnection :: "world \<Rightarrow> error + unit" where
  "testConnection w = (if testConnection_ok w then Inr () else Inl ConnectionTestFailed)"

definition generateEmbedding :: "world \<Rightarrow> string \<Rightarrow> error + real list" where
  "generateEmbedding w text' =
     (let maxLength = 8000;
          truncatedText = (if length text' > maxLength then take maxLength text' @ ''...''
                           else text')
      in case provider_embedding w truncatedText of
           None \<Rightarrow> Inl ApiError
         | Some v \<Rightarrow> Inr v)"

section \<open>MemoryService\<close>

record MemoryService =
  vectorStore :: VectorStore
  initialized :: bool

definition initialize :: "world \<Rightarrow> MemoryService \<Rightarrow> (error + unit) \<times> MemoryService" where
  "initialize w s =
     (case testConnection w of
        Inl err \<Rightarrow> (Inl (InitializationFailed err), s)
      | Inr _ \<Rightarrow>
          (case getMemoryCount w (vectorStore s) of
             (Inl err, vs') \<Rightarrow> (Inl (InitializationFailed err), s\<lparr>vectorStore := vs'\<rparr>)
           | (Inr memoryCount, vs') \<Rightarrow> (Inr (), s\<lparr>vectorStore := vs', initialized := True\<rparr>)))"

text \<open>\<^verbatim>\<open>if (!this.initialized) await this.initialize()\<close>, the first statement of the
  operations that initialize the service themselves.\<close>

definition initialize_if_needed :: "world \<Rightarrow> MemoryService \<Rightarrow> (error + unit) \<times> MemoryService" where
  "initialize_if_needed w s = (if initialized s then (Inr (), s) else initialize w s)"

text \<open>The private \<^verbatim>\<open>ensureInitialized\<close> of the service only tests the flag.\<close>

definition ensureInitialized :: "MemoryService \<Rightarrow> error + unit" where
  "ensureInitialized s = (if initialized s then Inr () else Inl MemoryServiceNotInitialized)"

text \<open>\<^verbatim>\<open>metadata?.userName\<close>, and the copy of the mapping with that key deleted
  (\<^verbatim>\<open>{ ...undefined }\<close> is the empty object).\<close>

definition metadata_userName :: "metadata_map option \<Rightarrow> string option" where
  "metadata_userName md = (case md of None \<Rightarrow> None | Some m \<Rightarrow> map_of m ''userName'')"

definition remainingMetadata :: "metadata_map option \<Rightarrow> metadata_map" where
  "remainingMetadata md =
     (case md of None \<Rightarrow> [] | Some m \<Rightarrow> filter (\<lambda>(k, v). k \<noteq> ''userName'') m)"

text \<open>The object literal of \<^verbatim>\<open>storeMemory\<close>: \<^verbatim>\<open>...(x && { x })\<close> sets the field
  only when \<^verbatim>\<open>x\<close> is truthy.\<close>

definition build_entry :: "world \<Rightarrow> string \<Rightarrow> string \<Rightarrow> real list \<Rightarrow> string option
    \<Rightarrow> string option \<Rightarrow> metadata_map option \<Rightarrow> MemoryEntry" where
  "build_entry w userInput' botResponse' embedding' channelId' userId' md =
     \<lparr>entry_id = None, timestamp = date_now w, userInput = userInput',
      botResponse = botResponse', embedding = embedding',
      channelId = or_null channelId', userId = or_null userId',
      userName = or_null (metadata_userName md),
      metadata = (if 0 < length (remainingMetadata md) then Some (remainingMetadata md)
                  else None)\<rparr>"

definition storeMemory :: "world \<Rightarrow> MemoryService \<Rightarrow> string \<Rightarrow> string \<Rightarrow> string option
    \<Rightarrow> string option \<Rightarrow> metadata_map option \<Rightarrow> (error + MemoryEntry) \<times> MemoryService" where
  "storeMemory w s userInput' botResponse' channelId' userId' md =
     (case initialize_if_needed w s of
        (Inl err, s1) \<Rightarrow> (Inl (FailedToStoreMemory err), s1)
      | (Inr _, s1) \<Rightarrow>
          (case generateEmbedding w userInput' of
             Inl err \<Rightarrow> (Inl (FailedToStoreMemory err), s1)
           | Inr embedding' \<Rightarrow>
               (case storeMemory_vs w (vectorStore s1)
                       (build_entry w userInput' botResponse' embedding' channelId' userId' md) of
                  (Inl err, vs') \<Rightarrow> (Inl (FailedToStoreMemory err), s1\<lparr>vectorStore := vs'\<rparr>)
                | (Inr storedEntry, vs') \<Rightarrow> (Inr storedEntry, s1\<lparr>vectorStore := vs'\<rparr>))))"

text \<open>The \<^verbatim>\<open>try\<close> block of \<^verbatim>\<open>searchMemories\<close>, then the method with its
  \<^verbatim>\<open>catch\<close>, which returns the empty array.\<close>

definition searchMemories_try :: "Config \<Rightarrow> world \<Rightarrow> MemoryService \<Rightarrow> string \<Rightarrow> string option
    \<Rightarrow> string option \<Rightarrow> int option \<Rightarrow> (error + MemorySearchResult list) \<times> MemoryService" where
  "searchMemories_try cfg w s query channelId' userId' limit =
     (case initialize_if_needed w s of
        (Inl err, s1) \<Rightarrow> (Inl err, s1)
      | (Inr _, s1) \<Rightarrow>
          (case generateEmbedding w query of
             Inl err \<Rightarrow> (Inl err, s1)
           | Inr queryEmbedding \<Rightarrow>
               (case searchSimilar cfg w (vectorStore s1) queryEmbedding
                       (Some (limit_or_default cfg limit)) channelId' userId' of
                  (results, vs') \<Rightarrow> (results, s1\<lparr>vectorStore := vs'\<rparr>))))"

definition searchMemories :: "Config \<Rightarrow> world \<Rightarrow> MemoryService \<Rightarrow> string \<Rightarrow> string option
    \<Rightarrow> string option \<Rightarrow> int option \<Rightarrow> (error + MemorySearchResult list) \<times> MemoryService" where
  "searchMemories cfg w s query channelId' userId' limit =
     (case searchMemories_try cfg w s query channelId' userId' limit of
        (Inl err, s') \<Rightarrow> (Inr [], s')
      | (Inr results, s') \<Rightarrow> (Inr results, s'))"

definition getRecentMemories :: "Config \<Rightarrow> world \<Rightarrow> MemoryService \<Rightarrow> string option
    \<Rightarrow> string option \<Rightarrow> int option \<Rightarrow> (error + MemoryEntry list) \<times> MemoryService" where
  "getRecentMemories cfg w s channelId' userId' limit =
     (case ensureInitialized s of
        Inl err \<Rightarrow> (Inl err, s)
      | Inr _ \<Rightarrow>
          (case getRecentMemories_vs cfg w (vectorStore s) (Some (limit_or_default cfg limit))
                  channelId' userId' of
             (Inl err, vs') \<Rightarrow> (Inl (FailedToGetRecentMemories err), s\<lparr>vectorStore := vs'\<rparr>)
           | (Inr found, vs') \<Rightarrow> (Inr found, s\<lparr>vectorStore := vs'\<rparr>)))"

subsection \<open>The prompt template (formatMemoriesForLLM)\<close>

text \<open>Decimal digits of a natural number, for \<^verbatim>\<open>${index + 1}\<close> and
  \<^verbatim>\<open>${searchResults.length}\<close>.\<close>

fun show_nat :: "nat \<Rightarrow> string" where
  "show_nat n =
     (if n < 10 then [''0123456789'' ! n]
      else show_nat (n div 10) @ [''0123456789'' ! (n mod 10)])"

declare show_nat.simps [simp del]

text \<open>\<^verbatim>\<open>Date.prototype.toISOString\<close> throws a \<^verbatim>\<open>RangeError\<close> outside the range of
  dates, 8.64e15 milliseconds on either side of the epoch.\<close>

definition toISOString :: "world \<Rightarrow> int \<Rightarrow> error + string" where
  "toISOString w t =
     (if \<bar>t\<bar> \<le> 8640000000000000 then Inr (iso_text w t) else Inl InvalidTimeValue)"

text \<open>A template literal's \<^verbatim>\<open>${x}\<close> for an optional string.\<close>

definition interpolate :: "string option \<Rightarrow> string" where
  "interpolate s = (case s of None \<Rightarrow> ''undefined'' | Some t \<Rightarrow> t)"

definition userLabel :: "MemoryEntry \<Rightarrow> string" where
  "userLabel e = (if truthy (userName e) then interpolate (userName e) else ''User'')"

text \<open>The bullet character U+2022, in UTF-8.\<close>

definition bullet :: string where
  "bullet = [CHR 0xE2, CHR 0x80, CHR 0xA2]"

definition memories_header :: string where
  "memories_header =
     ''\<newline>--- RETRIEVED MEMORIES FOR EVALUATION ---\<newline>''
     @ ''IMPORTANT: These are past conversations that may or may not be accurate or current.\<newline>''
     @ ''You must evaluate them against your current knowledge and any new context provided.\<newline>\<newline>''"

definition evaluation_instructions :: string where
  "evaluation_instructions =
     ''EVALUATION INSTRUCTIONS:\<newline>''
     @ bullet @ '' Compare this past response with your current knowledge\<newline>''
     @ bullet @ '' Consider if information may have changed since this conversation\<newline>''
     @ bullet @ '' Determine if the previous answer is still accurate and complete\<newline>''
     @ bullet @ '' If the memory is outdated or incorrect, provide an updated answer\<newline>''
     @ bullet @ '' If the memory is accurate, you may reference it but add any new insights\<newline>''
     @ bullet @ '' Always prioritize accuracy over consistency with past responses\<newline>\<newline>''"

definition synthesis_instructions :: string where
  "synthesis_instructions =
     ''EVALUATION AND SYNTHESIS INSTRUCTIONS:\<newline>''
     @ bullet @ '' Review each past conversation critically\<newline>''
     @ bullet @ '' Identify which information is still accurate and which may be outdated\<newline>''
     @ bullet @ '' Look for contradictions between memories or with your current knowledge\<newline>''
     @ bullet @ '' Synthesize the best information from multiple sources\<newline>''
     @ bullet @ '' Provide the most accurate and up-to-date answer possible\<newline>''
     @ bullet @ '' You may reference past conversations but are not bound by them\<newline>''
     @ bullet @ '' If memories contain errors, correct them in your response\<newline>''
     @ bullet @ '' Mention when you're updating or correcting previous information\<newline>\<newline>''"

definition format_single :: "world \<Rightarrow> MemorySearchResult \<Rightarrow> error + string" where
  "format_single w r =
     (case toISOString w (timestamp (entry r)) of
        Inl err \<Rightarrow> Inl err
      | Inr ts \<Rightarrow>
          Inr (''Past conversation (similarity: '' @ toFixed3 w (similarity r)
               @ '', from '' @ ts @ ''):\<newline>''
               @ userLabel (entry r) @ '': '' @ userInput (entry r) @ ''\<newline>''
               @ ''Previous Assistant Response: '' @ botResponse (entry r) @ ''\<newline>\<newline>''
               @ ''--- END RETRIEVED MEMORY ---\<newline>\<newline>''
               @ evaluation_instructions))"

text \<open>The \<^verbatim>\<open>forEach\<close> of the branch for several memories, the text so far passed along.\<close>

fun format_each :: "world \<Rightarrow> nat \<Rightarrow> MemorySearchResult list \<Rightarrow> string \<Rightarrow> error + string" where
  "format_each w index [] formattedMemories = Inr formattedMemories"
| "format_each w index (r # rs) formattedMemories =
     (case toISOString w (timestamp (entry r)) of
        Inl err \<Rightarrow> Inl err
      | Inr ts \<Rightarrow>
          format_each w (Suc index) rs
            (formattedMemories
             @ ''Memory '' @ show_nat (index + 1) @ '' (similarity: ''
             @ toFixed3 w (similarity r) @ '', from '' @ ts @ ''):\<newline>''
             @ userLabel (entry r) @ '': '' @ userInput (entry r) @ ''\<newline>''
             @ ''Previous Response: '' @ botResponse (entry r) @ ''\<newline>\<newline>''))"

definition formatMemoriesForLLM :: "world \<Rightarrow> MemorySearchResult list \<Rightarrow> error + string" where
  "formatMemoriesForLLM w searchResults =
     (if length searchResults = 0 then Inr []
      else if length searchResults = 1 then
        (case format_single w (searchResults ! 0) of
           Inl err \<Rightarrow> Inl err
         | Inr t \<Rightarrow> Inr (memories_header @ t))
      else
        (case format_each w 0 searchResults
                (memories_header @ ''Found '' @ show_nat (length searchResults)
                 @ '' potentially relevant past conversations:\<newline>\<newline>'') of
           Inl err \<Rightarrow> Inl err
         | Inr t \<Rightarrow>
             Inr (t @ ''--- END RETRIEVED MEMORIES ---\<newline>\<newline>'' @ synthesis_instructions)))"

subsection \<open>getEnhancedContext and the operations that require an initialized service\<close>

text \<open>Every \<^const>\<open>Inl\<close> below is an error thrown inside the \<^verbatim>\<open>try\<close> block; the
  \<^verbatim>\<open>catch\<close> returns the query as it came.\<close>

definition getEnhancedContext :: "Config \<Rightarrow> world \<Rightarrow> MemoryService \<Rightarrow> string \<Rightarrow> string option
    \<Rightarrow> string option \<Rightarrow> string option \<Rightarrow> (error + string) \<times> MemoryService" where
  "getEnhancedContext cfg w s userQuery channelId' userId' userName' =
     (case initialize_if_needed w s of
        (Inl err, s1) \<Rightarrow> (Inr userQuery, s1)
      | (Inr _, s1) \<Rightarrow>
          (case searchMemories cfg w s1 userQuery channelId' userId' None of
             (Inl err, s2) \<Rightarrow> (Inr userQuery, s2)
           | (Inr found, s2) \<Rightarrow>
               (case formatMemoriesForLLM w found of
                  Inl err \<Rightarrow> (Inr userQuery, s2)
                | Inr memoryContext \<Rightarrow>
                    if memoryContext \<noteq> [] then
                      (let userPrefix = (if truthy userName' then interpolate userName' @ '' asks: ''
                                         else [])
                       in (Inr (memoryContext @ ''\<newline>Current Question: '' @ userPrefix @ userQuery),
                           s2))
                    else if truthy userName' then
                      (Inr (interpolate userName' @ '' asks: '' @ userQuery), s2)
                    else (Inr userQuery, s2))))"

record Stats =
  totalMemories :: nat
  stats_embeddingsProvider :: string
  stats_embeddingsModel :: string
  stats_databasePath :: string
  stats_similarityThreshold :: real

definition getStats :: "Config \<Rightarrow> world \<Rightarrow> MemoryService \<Rightarrow> (error + Stats) \<times> MemoryService" where
  "getStats cfg w s =
     (case ensureInitialized s of
        Inl err \<Rightarrow> (Inl err, s)
      | Inr _ \<Rightarrow>
          (case getMemoryCount w (vectorStore s) of
             (Inl err, vs') \<Rightarrow> (Inl (FailedToGetStats err), s\<lparr>vectorStore := vs'\<rparr>)
           | (Inr n, vs') \<Rightarrow>
               (Inr \<lparr>totalMemories = n,
                     stats_embeddingsProvider = embeddingsProvider cfg,
                     stats_embeddingsModel = embeddingsModel cfg,
                     stats_databasePath = databasePath cfg,
                     stats_similarityThreshold = similarityThreshold cfg\<rparr>,
                s\<lparr>vectorStore := vs'\<rparr>)))"

definition performMaintenance :: "world \<Rightarrow> MemoryService \<Rightarrow> (error + unit) \<times> MemoryService" where
  "performMaintenance w s =
     (case ensureInitialized s of
        Inl err \<Rightarrow> (Inl err, s)
      | Inr _ \<Rightarrow>
          (case maintenance w (vectorStore s) of
             (Inl err, vs') \<Rightarrow> (Inl (MaintenanceFailed err), s\<lparr>vectorStore := vs'\<rparr>)
           | (Inr _, vs') \<Rightarrow> (Inr (), s\<lparr>vectorStore := vs'\<rparr>)))"

definition deleteMemory :: "world \<Rightarrow> MemoryService \<Rightarrow> int \<Rightarrow> (error + bool) \<times> MemoryService" where
  "deleteMemory w s i =
     (case ensureInitialized s of
        Inl err \<Rightarrow> (Inl err, s)
      | Inr _ \<Rightarrow>
          (case deleteMemory_vs w (vectorStore s) i of
             (Inl err, vs') \<Rightarrow> (Inl (FailedToDeleteMemory err), s\<lparr>vectorStore := vs'\<rparr>)
           | (Inr deleted, vs') \<Rightarrow> (Inr deleted, s\<lparr>vectorStore := vs'\<rparr>)))"

section \<open>Notions the properties are stated with\<close>

text \<open>The ranking of search results: higher similarity first, and of two results of equal
  similarity the one with the larger timestamp first.\<close>

definition ranked_before :: "MemorySearchResult \<Rightarrow> MemorySearchResult \<Rightarrow> bool" where
  "ranked_before a b =
     (similarity b < similarity a
      \<or> (similarity a = similarity b \<and> timestamp (entry b) \<le> timestamp (entry a)))"

text \<open>The search result of a row whose embedding has the query's length.\<close>

definition score_result :: "real list \<Rightarrow> row \<Rightarrow> MemorySearchResult" where
  "score_result q r = \<lparr>entry = entry_of_row r, similarity = cosine_spec q (row_embedding r)\<rparr>"

section \<open>Example data\<close>

definition example_config :: Config where
  "example_config =
     \<lparr>embeddingsProvider = ''ollama'', embeddingsModel = ''nomic-embed-text'',
      databasePath = ''./data/memory.sqlite'', maxMemoryResults = 5,
      similarityThreshold = 7 / 10\<rparr>"

definition example_row :: "nat \<Rightarrow> int \<Rightarrow> real list \<Rightarrow> row" where
  "example_row i t v =
     \<lparr>row_id = i, row_timestamp = t, user_input = ''where is the deploy script'',
      bot_response = ''Noted.'', row_embedding = v, channel_id = Some ''C1'',
      user_id = Some ''U1'', user_name = None, row_metadata = None\<rparr>"

definition example_database :: database where
  "example_database =
     \<lparr>memories = [example_row 1 10 [1, 0], example_row 2 20 [1, 0], example_row 3 30 [0, 1],
                  example_row 4 40 [4, 3]],
      sqlite_sequence = 4\<rparr>"

definition example_store :: VectorStore where
  "example_store =
     \<lparr>db = Some example_database, vs_initialized = True, file_image = Some example_database\<rparr>"

definition example_world :: world where
  "example_world =
     \<lparr>testConnection_ok = True, provider_embedding = (\<lambda>t. Some [1, 0]), open_database = NoFile,
      sql_throws = False, writeFile_ok = True, date_now = 50, toFixed3 = (\<lambda>x. ''0.800''),
      iso_text = (\<lambda>t. ''1970-01-01T00:00:00.040Z'')\<rparr>"

text \<open>A fifth row, its embedding of another dimension, and the store that holds it as well.\<close>

definition mismatched_row :: row where
  "mismatched_row = example_row 5 50 [1, 0, 0]"

definition mixed_store :: VectorStore where
  "mixed_store =
     example_store\<lparr>db := Some (example_database\<lparr>memories := memories example_database @ [mismatched_row],
                                                 sqlite_sequence := 5\<rparr>)\<rparr>"

text \<open>An initialized service over the example store, and a service that has not been
  initialized, its store not yet opened.\<close>

definition example_service :: MemoryService where
  "example_service = \<lparr>vectorStore = example_store, initialized = True\<rparr>"

definition closed_store :: VectorStore where
  "closed_store = \<lparr>db = None, vs_initialized = False, file_image = None\<rparr>"

definition new_service :: MemoryService where
  "new_service = \<lparr>vectorStore = closed_store, initialized = False\<rparr>"

text \<open>A world whose embedding backend answers no request.\<close>

definition provider_down :: world where
  "provider_down = example_world\<lparr>provider_embedding := (\<lambda>t. None)\<rparr>"

text \<open>A record to store, newer than every row of the example store, and a world in which
  the database file cannot be written.\<close>

definition example_entry :: MemoryEntry where
  "example_entry =
     \<lparr>entry_id = None, timestamp = 100, userInput = ''What is 2+2?'', botResponse = ''4'',
      embedding = [0, 1], channelId = Some ''C1'', userId = Some ''U1'', userName = Some ''Ada'',
      metadata = None\<rparr>"


text \<open>The same record with the empty string as its channel.\<close>

definition blank_channel_entry :: MemoryEntry where
  "blank_channel_entry = example_entry\<lparr>channelId := Some []\<rparr>"

text \<open>The row that \<^const>\<open>insert_memory\<close> appends for a record.\<close>

definition stored_row :: "MemoryEntry \<Rightarrow> database \<Rightarrow> row" where
  "stored_row e d = last (memories (snd (insert_memory e d)))"

text \<open>A world in which the connection test of the embedding backend fails.\<close>

definition unreachable_backend :: world where
  "unreachable_backend = example_world\<lparr>testConnection_ok := False\<rparr>"

section \<open>Cosine similarity: the loops compute the formula\<close>

lemma dotProduct_loop_sum:
  "dotProduct_loop a b i d = d + (\<Sum>k = i..<length a. a ! k * b ! k)"
proof (induction a b i d rule: dotProduct_loop.induct)
  case (1 a b i d)
  show ?case
  proof (cases "i < length a")
    case True
    then show ?thesis
      using "1.IH" [OF True]
      by (subst dotProduct_loop.simps) (simp add: sum.atLeast_Suc_lessThan add.assoc)
  next
    case False
    then show ?thesis
      by (subst dotProduct_loop.simps) simp
  qed
qed

lemma magnitude_loop_sum:
  "magnitude_loop a b i m =
     (fst m + (\<Sum>k = i..<length a. a ! k * a ! k), snd m + (\<Sum>k = i..<length a. b ! k * b ! k))"
proof (induction a b i m rule: magnitude_loop.induct)
  case (1 a b i m)
  show ?case
  proof (cases "i < length a")
    case True
    then show ?thesis
      using "1.IH" [OF True]
      by (subst magnitude_loop.simps) (simp add: sum.atLeast_Suc_lessThan add.assoc)
  next
    case False
    then show ?thesis
      by (subst magnitude_loop.simps) simp
  qed
qed

lemma dot_nth:
  assumes "length a = length b"
  shows "dot a b = (\<Sum>k = 0..<length a. a ! k * b ! k)"
proof -
  have "dot a b = sum_list (map (\<lambda>k. a ! k * b ! k) [0..<length a])"
    unfolding dot_def using assms
    by (intro arg_cong [where f = sum_list] nth_equalityI) simp_all
  then show ?thesis
    by (simp add: interv_sum_list_conv_sum_set_nat)
qed

lemma squares_nth: "(\<Sum>x \<leftarrow> a. x * x) = (\<Sum>k = 0..<length a. a ! k * a ! k)"
proof -
  have "map (\<lambda>x. x * x) a = map (\<lambda>k. a ! k * a ! k) [0..<length a]"
    by (intro nth_equalityI) simp_all
  then show ?thesis
    by (simp add: interv_sum_list_conv_sum_set_nat)
qed

lemma calculateCosineSimilarity_eq:
  "calculateCosineSimilarity a b =
     (if length a \<noteq> length b then Inl VectorDimensionsMustMatch else Inr (cosine_spec a b))"
proof (cases "length a = length b")
  case True
  have d: "dotProduct_loop a b 0 0 = dot a b"
    by (simp add: dotProduct_loop_sum dot_nth [OF True])
  have m: "magnitude_loop a b 0 (0, 0) = ((\<Sum>x \<leftarrow> a. x * x), (\<Sum>x \<leftarrow> b. x * x))"
    by (simp add: magnitude_loop_sum squares_nth True)
  show ?thesis
    using True by (simp add: calculateCosineSimilarity_def cosine_spec_def magnitude_def d m)
next
  case False
  then show ?thesis
    by (simp add: calculateCosineSimilarity_def)
qed

lemma magnitude_examples:
  "magnitude [3, 4] = 5" "magnitude [4, 3] = 5" "magnitude [0, 0] = 0"
  "magnitude [1, 0] = 1" "magnitude [0, 1] = 1"
  using real_sqrt_abs [of 5] by (simp_all add: magnitude_def)

section \<open>Search: ranking, threshold and limit\<close>

lemma set_insert_cmp: "set (insert_cmp cmp x ys) = insert x (set ys)"
  by (induction ys) auto

lemma set_array_sort: "set (array_sort cmp xs) = set xs"
  unfolding array_sort_def by (induction xs) (simp_all add: set_insert_cmp)

lemma length_insert_cmp: "length (insert_cmp cmp x ys) = Suc (length ys)"
  by (induction ys) auto

lemma length_array_sort: "length (array_sort cmp xs) = length xs"
  unfolding array_sort_def by (induction xs) (simp_all add: length_insert_cmp)

lemma insert_cmp_key_desc:
  fixes key :: "'a \<Rightarrow> 'b::linordered_idom"
  assumes "sorted_wrt (\<lambda>a b. key b \<le> key a) ys"
  shows "sorted_wrt (\<lambda>a b. key b \<le> key a) (insert_cmp (\<lambda>a b. key b - key a) x ys)"
  using assms
proof (induction ys)
  case Nil
  then show ?case by simp
next
  case (Cons y ys)
  show ?case
  proof (cases "key y \<le> key x")
    case True
    with Cons.prems show ?thesis by (auto intro: order_trans)
  next
    case False
    with Cons show ?thesis by (auto simp: set_insert_cmp)
  qed
qed

lemma array_sort_key_desc:
  fixes key :: "'a \<Rightarrow> 'b::linordered_idom"
  shows "sorted_wrt (\<lambda>a b. key b \<le> key a) (array_sort (\<lambda>a b. key b - key a) xs)"
  unfolding array_sort_def by (induction xs) (simp_all add: insert_cmp_key_desc)

lemma select_memories_newest_first:
  "sorted_wrt (\<lambda>a b. row_timestamp b \<le> row_timestamp a) (select_memories d c u)"
  unfolding select_memories_def by (rule array_sort_key_desc)

lemma set_select_memories:
  "set (select_memories d c u) = {r \<in> set (memories d). row_matches c u r}"
  unfolding select_memories_def by (simp add: set_array_sort)

lemma insert_cmp_ranked:
  assumes "sorted_wrt ranked_before ys"
    and "\<forall>y \<in> set ys. timestamp (entry y) \<le> timestamp (entry x)"
  shows "sorted_wrt ranked_before (insert_cmp (\<lambda>a b. similarity b - similarity a) x ys)"
  using assms
proof (induction ys)
  case Nil
  then show ?case by simp
next
  case (Cons y ys)
  show ?case
  proof (cases "similarity y \<le> similarity x")
    case True
    have "ranked_before x z" if "z \<in> set (y # ys)" for z
    proof -
      have "similarity z \<le> similarity y"
        using that Cons.prems(1) by (auto simp: ranked_before_def)
      moreover have "timestamp (entry z) \<le> timestamp (entry x)"
        using that Cons.prems(2) by auto
      ultimately show ?thesis
        using True by (auto simp: ranked_before_def)
    qed
    with True Cons.prems(1) show ?thesis by simp
  next
    case False
    then have "ranked_before y x"
      by (simp add: ranked_before_def)
    with False Cons show ?thesis
      by (auto simp: set_insert_cmp)
  qed
qed

lemma array_sort_ranked:
  assumes "sorted_wrt (\<lambda>a b. timestamp (entry b) \<le> timestamp (entry a)) xs"
  shows "sorted_wrt ranked_before (array_sort (\<lambda>a b. similarity b - similarity a) xs)"
  using assms unfolding array_sort_def
proof (induction xs)
  case Nil
  then show ?case by simp
next
  case (Cons x xs)
  then show ?case
    using set_array_sort [of "\<lambda>a b. similarity b - similarity a" xs]
    by (auto simp: array_sort_def intro!: insert_cmp_ranked)
qed

lemma sorted_wrt_slice0: "sorted_wrt P xs \<Longrightarrow> sorted_wrt P (slice0 xs n)"
  by (simp add: slice0_def sorted_wrt_take)

lemma set_slice0: "set (slice0 xs n) \<subseteq> set xs"
  by (auto simp: slice0_def dest: in_set_takeD)

lemma length_slice0: "0 \<le> n \<Longrightarrow> int (length (slice0 xs n)) \<le> n"
  by (simp add: slice0_def)

lemma score_rows_eq:
  "score_rows cfg q rs acc =
     (if \<forall>r \<in> set rs. length (row_embedding r) = length q
      then Inr (acc @ map (score_result q)
                  (filter (\<lambda>r. similarityThreshold cfg \<le> cosine_spec q (row_embedding r)) rs))
      else Inl VectorDimensionsMustMatch)"
proof (induction rs arbitrary: acc)
  case Nil
  then show ?case by simp
next
  case (Cons r rs)
  show ?case
  proof (cases "length (row_embedding r) = length q")
    case True
    then show ?thesis
      by (simp add: calculateCosineSimilarity_eq Cons.IH score_result_def)
  next
    case False
    then show ?thesis
      by (auto simp: calculateCosineSimilarity_eq)
  qed
qed

lemma scored_newest_first:
  "sorted_wrt (\<lambda>a b. timestamp (entry b) \<le> timestamp (entry a))
     (map (score_result q) (filter P (select_memories d c u)))"
proof -
  have "sorted_wrt (\<lambda>a b. row_timestamp b \<le> row_timestamp a) (filter P (select_memories d c u))"
    by (rule sorted_wrt_filter) (rule select_memories_newest_first)
  then show ?thesis
    by (simp add: sorted_wrt_map score_result_def entry_of_row_def)
qed

lemma searchSimilar_cases:
  assumes "fst (searchSimilar cfg w vs q limit c u) = Inr rs"
  obtains "rs = []"
  | vs1 d where "ensureInitialized_vs w vs = Inr vs1" "db vs1 = Some d"
      "rs = slice0 (array_sort (\<lambda>a b. similarity b - similarity a)
               (map (score_result q)
                  (filter (\<lambda>r. similarityThreshold cfg \<le> cosine_spec q (row_embedding r))
                     (select_memories d c u))))
             (limit_or_default cfg limit)"
  using assms
  by (auto simp: searchSimilar_def score_rows_eq split: sum.splits option.splits if_splits)

subsection \<open>The example store, evaluated\<close>

lemma cosine_examples:
  "cosine_spec [1, 0] [1, 0] = 1" "cosine_spec [1, 0] [0, 1] = 0" "cosine_spec [1, 0] [4, 3] = 4 / 5"
  by (simp_all add: cosine_spec_def magnitude_examples dot_def)

lemma example_select:
  "select_memories example_database None None =
     [example_row 4 40 [4, 3], example_row 3 30 [0, 1], example_row 2 20 [1, 0],
      example_row 1 10 [1, 0]]"
  by (simp add: select_memories_def example_database_def row_matches_def truthy_def
      array_sort_def example_row_def)

lemma example_search:
  "fst (searchSimilar example_config example_world example_store [1, 0] (Some 5) None None) =
     Inr [score_result [1, 0] (example_row 2 20 [1, 0]),
          score_result [1, 0] (example_row 1 10 [1, 0]),
          score_result [1, 0] (example_row 4 40 [4, 3])]"
  by (simp add: searchSimilar_def ensureInitialized_vs_def example_store_def example_world_def
      example_select calculateCosineSimilarity_eq cosine_examples example_config_def
      array_sort_def slice0_def limit_or_default_def score_result_def example_row_def)

lemma example_search_limit:
  "fst (searchSimilar example_config example_world example_store [1, 0] (Some 2) None None) =
     Inr [score_result [1, 0] (example_row 2 20 [1, 0]),
          score_result [1, 0] (example_row 1 10 [1, 0])]"
  by (simp add: searchSimilar_def ensureInitialized_vs_def example_store_def example_world_def
      example_select calculateCosineSimilarity_eq cosine_examples example_config_def
      array_sort_def slice0_def limit_or_default_def score_result_def example_row_def)

subsection \<open>Ranking\<close>

text \<open>
  C1. Whatever \<^const>\<open>searchSimilar\<close> returns is sorted by similarity descending, and of
  two results of equal similarity the one with the larger timestamp comes first.
\<close>

theorem searchSimilar_ranked:
  assumes "fst (searchSimilar cfg w vs q limit c u) = Inr rs"
  shows "sorted_wrt ranked_before rs"
  using assms
proof (cases rule: searchSimilar_cases)
  case 1
  then show ?thesis by simp
next
  case (2 vs1 d)
  then show ?thesis
    by (simp add: sorted_wrt_slice0 array_sort_ranked scored_newest_first)
qed

theorem searchSimilar_ranked_witness:
  "fst (searchSimilar example_config example_world example_store [1, 0] (Some 5) None None) =
     Inr [score_result [1, 0] (example_row 2 20 [1, 0]),
          score_result [1, 0] (example_row 1 10 [1, 0]),
          score_result [1, 0] (example_row 4 40 [4, 3])]
   \<and> sorted_wrt ranked_before
        [score_result [1, 0] (example_row 2 20 [1, 0]),
         score_result [1, 0] (example_row 1 10 [1, 0]),
         score_result [1, 0] (example_row 4 40 [4, 3])]"
  using searchSimilar_ranked [OF example_search] example_search by simp


subsection \<open>Threshold and limit\<close>

text \<open>
  C2, as stated: for every limit \<open>k\<close>, \<^const>\<open>searchSimilar\<close> returns at most \<open>k\<close>
  results. It fails for a negative limit, where \<^verbatim>\<open>slice(0, k)\<close> drops the last
  \<open>-k\<close> results and keeps the others: with the limit \<open>-1\<close> the example store, which has
  three candidates at or above the threshold, returns two results.
\<close>

theorem negative_limit_counterexample:
  "fst (searchSimilar example_config example_world example_store [1, 0] (Some (- 1)) None None) =
     Inr [score_result [1, 0] (example_row 2 20 [1, 0]),
          score_result [1, 0] (example_row 1 10 [1, 0])]
   \<and> \<not> int (length [score_result [1, 0] (example_row 2 20 [1, 0]),
                       score_result [1, 0] (example_row 1 10 [1, 0])]) \<le> - 1"
  by (simp add: searchSimilar_def ensureInitialized_vs_def example_store_def example_world_def
      example_select calculateCosineSimilarity_eq cosine_examples example_config_def
      array_sort_def slice0_def limit_or_default_def score_result_def example_row_def)

text \<open>
  C2, amended: every result that \<^const>\<open>searchSimilar\<close> returns has a similarity at or above
  the configured threshold, and for every limit \<open>k\<close> that is not negative there are at most
  \<open>k\<close> results, however many candidates reach the threshold.
\<close>

theorem searchSimilar_threshold_limit:
  assumes "fst (searchSimilar cfg w vs q limit c u) = Inr rs"
  shows "(\<forall>r \<in> set rs. similarityThreshold cfg \<le> similarity r)
       \<and> (0 \<le> limit_or_default cfg limit \<longrightarrow> int (length rs) \<le> limit_or_default cfg limit)"
  using assms
proof (cases rule: searchSimilar_cases)
  case 1
  then show ?thesis by simp
next
  case (2 vs1 d)
  have "similarityThreshold cfg \<le> similarity r" if "r \<in> set rs" for r
  proof -
    from that have "r \<in> set (array_sort (\<lambda>a b. similarity b - similarity a)
               (map (score_result q)
                  (filter (\<lambda>r. similarityThreshold cfg \<le> cosine_spec q (row_embedding r))
                     (select_memories d c u))))"
      unfolding 2(3) using set_slice0 by fastforce
    then show ?thesis
      by (auto simp: set_array_sort score_result_def)
  qed
  then show ?thesis
    using 2(3) by (simp add: length_slice0)
qed


theorem searchSimilar_threshold_limit_witness:
  "fst (searchSimilar example_config example_world example_store [1, 0] (Some 2) None None) =
     Inr [score_result [1, 0] (example_row 2 20 [1, 0]),
          score_result [1, 0] (example_row 1 10 [1, 0])]
   \<and> similarityThreshold example_config \<le> similarity (score_result [1, 0] (example_row 2 20 [1, 0]))
   \<and> similarityThreshold example_config \<le> similarity (score_result [1, 0] (example_row 1 10 [1, 0]))
   \<and> int (length [score_result [1, 0] (example_row 2 20 [1, 0]),
                   score_result [1, 0] (example_row 1 10 [1, 0])]) \<le> 2"
  using searchSimilar_threshold_limit [OF example_search_limit] example_search_limit
  by (simp add: limit_or_default_def)


subsection \<open>An embedding of another dimension\<close>

lemma mismatch_empties_search:
  assumes "ensureInitialized_vs w vs = Inr vs1" and "db vs1 = Some d"
    and "r \<in> set (memories d)" and "row_matches c u r"
    and "length (row_embedding r) \<noteq> length q"
  shows "searchSimilar cfg w vs q limit c u = (Inr [], vs1)"
proof -
  have "r \<in> set (select_memories d c u)"
    using assms(3,4) by (simp add: set_select_memories)
  with assms(5) have "score_rows cfg q (select_memories d c u) [] = Inl VectorDimensionsMustMatch"
    by (auto simp: score_rows_eq)
  with assms(1,2) show ?thesis
    by (simp add: searchSimilar_def)
qed

lemma mixed_store_open:
  "ensureInitialized_vs example_world mixed_store = Inr mixed_store"
  by (simp add: ensureInitialized_vs_def mixed_store_def example_store_def)

lemma mixed_store_search:
  "searchSimilar example_config example_world mixed_store [1, 0] (Some 5) None None
     = (Inr [], mixed_store)"
  using mismatch_empties_search [OF mixed_store_open, of _ mismatched_row None None "[1, 0]"
      example_config "Some 5"]
  by (simp add: mixed_store_def example_store_def example_database_def mismatched_row_def
      example_row_def row_matches_def truthy_def)


text \<open>
  C3, as stated: when the query's length differs from one candidate's stored embedding
  length, only that candidate is skipped and the other candidates are still scored and
  returned. It fails: the example store returns three results, and the same store with one
  more row, of another dimension, returns none.
\<close>

theorem mismatch_skips_only_candidate_counterexample:
  "db mixed_store = Some (example_database\<lparr>memories := memories example_database @ [mismatched_row],
                                            sqlite_sequence := 5\<rparr>)
   \<and> db example_store = Some example_database
   \<and> length (row_embedding mismatched_row) \<noteq> length [1, 0 :: real]
   \<and> fst (searchSimilar example_config example_world example_store [1, 0] (Some 5) None None) =
       Inr [score_result [1, 0] (example_row 2 20 [1, 0]),
            score_result [1, 0] (example_row 1 10 [1, 0]),
            score_result [1, 0] (example_row 4 40 [4, 3])]
   \<and> fst (searchSimilar example_config example_world mixed_store [1, 0] (Some 5) None None) = Inr []"
  using example_search mixed_store_search
  by (simp add: mixed_store_def example_store_def mismatched_row_def example_row_def)


text \<open>
  C3, amended: when the query's length differs from the stored embedding length of any
  record that passes the scope filter, the error leaves the loop, is caught inside
  \<^const>\<open>searchSimilar\<close>, and the search returns the empty sequence. No candidate is
  returned and the caller sees no error.
\<close>

theorem searchSimilar_dimension_mismatch:
  assumes "ensureInitialized_vs w vs = Inr vs1" and "db vs1 = Some d"
    and "r \<in> set (memories d)" and "row_matches c u r"
    and "length (row_embedding r) \<noteq> length q"
  shows "searchSimilar cfg w vs q limit c u = (Inr [], vs1)"
  using assms by (rule mismatch_empties_search)


theorem searchSimilar_dimension_mismatch_witness:
  "length (row_embedding mismatched_row) \<noteq> length [1, 0 :: real]
   \<and> searchSimilar example_config example_world mixed_store [1, 0] (Some 5) None None
       = (Inr [], mixed_store)"
  using searchSimilar_dimension_mismatch [OF mixed_store_open, of _ mismatched_row None None "[1, 0]"
      example_config "Some 5"]
  by (simp add: mixed_store_def example_store_def example_database_def mismatched_row_def
      example_row_def row_matches_def truthy_def)

section \<open>searchMemories: failures\<close>

lemma searchMemories_Inr: "\<exists>rs. fst (searchMemories cfg w s query c u limit) = Inr rs"
  by (auto simp: searchMemories_def split: prod.splits sum.splits)

lemma searchMemories_try_failed:
  "fst (searchMemories_try cfg w s query c u limit) = Inl e
   \<Longrightarrow> fst (searchMemories cfg w s query c u limit) = Inr []"
  by (auto simp: searchMemories_def split: prod.splits sum.splits)

lemma searchSimilar_sql_throws:
  "sql_throws w \<Longrightarrow> searchSimilar cfg w vs q limit c u = (Inr rs, vs') \<Longrightarrow> rs = []"
  by (auto simp: searchSimilar_def split: sum.splits option.splits)

lemma searchMemories_init_failed:
  "\<not> initialized s \<Longrightarrow> fst (initialize w s) = Inl e
   \<Longrightarrow> fst (searchMemories cfg w s query c u limit) = Inr []"
  by (cases "initialize w s")
     (simp add: searchMemories_def searchMemories_try_def initialize_if_needed_def)

lemma searchMemories_embedding_failed:
  "generateEmbedding w query = Inl e \<Longrightarrow> fst (searchMemories cfg w s query c u limit) = Inr []"
  by (cases "initialize_if_needed w s")
     (auto simp: searchMemories_def searchMemories_try_def split: sum.splits)

lemma searchSimilar_open_failed:
  "ensureInitialized_vs w vs = Inl e \<Longrightarrow> searchSimilar cfg w vs q limit c u = (Inl e, vs)"
  by (simp add: searchSimilar_def)

lemma open_fails:
  "open_database w = OpenFails \<Longrightarrow> \<not> (vs_initialized vs \<and> db vs \<noteq> None)
   \<Longrightarrow> ensureInitialized_vs w vs = Inl DatabaseOpenFailed"
  by (auto simp: ensureInitialized_vs_def)

lemma searchMemories_open_failed:
  assumes "open_database w = OpenFails"
    and "\<not> (vs_initialized (vectorStore s) \<and> db (vectorStore s) \<noteq> None)"
  shows "fst (searchMemories cfg w s query c u limit) = Inr []"
proof -
  have closed: "ensureInitialized_vs w (vectorStore s) = Inl DatabaseOpenFailed"
    using assms by (rule open_fails)
  show ?thesis
  proof (cases "initialized s")
    case True
    then show ?thesis
      by (auto simp: searchMemories_def searchMemories_try_def initialize_if_needed_def
          searchSimilar_open_failed [OF closed] split: sum.splits)
  next
    case False
    have "fst (initialize w s) = Inl (InitializationFailed DatabaseOpenFailed)
        \<or> fst (initialize w s) = Inl (InitializationFailed ConnectionTestFailed)"
      by (simp add: initialize_def testConnection_def getMemoryCount_def closed)
    with False show ?thesis
      by (auto intro: searchMemories_init_failed)
  qed
qed

lemma searchMemories_sql_throws:
  assumes "sql_throws w"
  shows "fst (searchMemories cfg w s query c u limit) = Inr []"
  by (auto simp: searchMemories_def searchMemories_try_def
      split: prod.splits sum.splits dest: searchSimilar_sql_throws [OF assms])

lemma searchMemories_mismatch:
  assumes "initialize_if_needed w s = (Inr (), ready)"
    and "generateEmbedding w query = Inr queryEmbedding"
    and "ensureInitialized_vs w (vectorStore ready) = Inr opened" and "db opened = Some d"
    and "r \<in> set (memories d)" and "row_matches c u r"
    and "length (row_embedding r) \<noteq> length queryEmbedding"
  shows "fst (searchMemories cfg w s query c u limit) = Inr []"
  using assms(1,2) mismatch_empties_search [OF assms(3-7)]
  by (simp add: searchMemories_def searchMemories_try_def)

text \<open>
  C4. \<^const>\<open>searchMemories\<close> never raises: it always returns a sequence, and the sequence
  is empty whenever something fails, be it an error thrown inside its \<^verbatim>\<open>try\<close> block, a
  failed self-initialization, a failure of the embedding provider, a database that cannot be
  opened, SQL that throws, or a stored embedding of another dimension than the query's.
\<close>

theorem searchMemories_never_raises:
  "(\<exists>rs. fst (searchMemories cfg w s query c u limit) = Inr rs)
   \<and> ((\<exists>e. fst (searchMemories_try cfg w s query c u limit) = Inl e)
        \<or> (\<not> initialized s \<and> (\<exists>e. fst (initialize w s) = Inl e))
        \<or> (\<exists>e. generateEmbedding w query = Inl e)
        \<or> (open_database w = OpenFails
            \<and> \<not> (vs_initialized (vectorStore s) \<and> db (vectorStore s) \<noteq> None))
        \<or> sql_throws w
        \<or> (\<exists>ready queryEmbedding opened d r.
              initialize_if_needed w s = (Inr (), ready)
              \<and> generateEmbedding w query = Inr queryEmbedding
              \<and> ensureInitialized_vs w (vectorStore ready) = Inr opened \<and> db opened = Some d
              \<and> r \<in> set (memories d) \<and> row_matches c u r
              \<and> length (row_embedding r) \<noteq> length queryEmbedding)
      \<longrightarrow> fst (searchMemories cfg w s query c u limit) = Inr [])"
  using searchMemories_Inr [of cfg w s query c u limit]
    searchMemories_try_failed [of cfg w s query c u limit]
    searchMemories_init_failed [of s w _ cfg query c u limit]
    searchMemories_embedding_failed [of w query _ cfg s c u limit]
    searchMemories_open_failed [of w s cfg query c u limit]
    searchMemories_sql_throws [of w cfg s query c u limit]
    searchMemories_mismatch [of w s _ query _ _ _ _ c u cfg limit]
  by blast

lemma provider_down_embedding: "generateEmbedding provider_down ''where is it'' = Inl ApiError"
  by (simp add: generateEmbedding_def provider_down_def)

theorem searchMemories_never_raises_witness:
  "generateEmbedding provider_down ''where is it'' = Inl ApiError
   \<and> fst (searchMemories example_config provider_down example_service ''where is it''
            None None None) = Inr []"
  using searchMemories_never_raises [of example_config provider_down example_service
      "''where is it''" None None None] provider_down_embedding
  by blast

section \<open>Operations that require an initialized service\<close>

lemma not_initialized_throws: "\<not> initialized s \<Longrightarrow> ensureInitialized s = Inl MemoryServiceNotInitialized"
  by (simp add: ensureInitialized_def)

lemma initialize_sets_flag: "initialize w s = (Inr x, s1) \<Longrightarrow> initialized s1"
  by (auto simp: initialize_def split: sum.splits prod.splits)

lemma searchMemories_initializes:
  assumes "fst (initialize w s) = Inr ()"
  shows "initialized (snd (searchMemories cfg w s query c u limit))"
proof -
  obtain s1 where s1: "initialize w s = (Inr (), s1)"
    using assms by (cases "initialize w s") simp
  then have "initialized s1" by (rule initialize_sets_flag)
  then show ?thesis
    using s1
    by (auto simp: searchMemories_def searchMemories_try_def initialize_if_needed_def
        split: sum.splits prod.splits)
qed

lemma storeMemory_initializes:
  assumes "fst (initialize w s) = Inr ()"
  shows "initialized (snd (storeMemory w s ui br c u md))"
proof -
  obtain s1 where s1: "initialize w s = (Inr (), s1)"
    using assms by (cases "initialize w s") simp
  then have "initialized s1" by (rule initialize_sets_flag)
  then show ?thesis
    using s1
    by (auto simp: storeMemory_def initialize_if_needed_def split: sum.splits prod.splits)
qed

text \<open>
  C8. On a service that is not initialized, \<^const>\<open>deleteMemory\<close>, \<^const>\<open>getStats\<close> and
  \<^const>\<open>performMaintenance\<close> each fail with the not-initialized error and leave the
  service and its store exactly as they were: none of them initializes anything. The store
  and search paths initialize the service themselves: wherever \<^const>\<open>initialize\<close> succeeds,
  the service is initialized after \<^const>\<open>searchMemories\<close> and after \<^const>\<open>storeMemory\<close>.
\<close>

theorem no_auto_initialization:
  assumes "\<not> initialized s"
  shows "deleteMemory w s i = (Inl MemoryServiceNotInitialized, s)
       \<and> getStats cfg w s = (Inl MemoryServiceNotInitialized, s)
       \<and> performMaintenance w s = (Inl MemoryServiceNotInitialized, s)
       \<and> (fst (initialize w s) = Inr () \<longrightarrow>
            initialized (snd (searchMemories cfg w s query c u limit))
          \<and> initialized (snd (storeMemory w s ui br c u md)))"
  using assms
  by (simp add: deleteMemory_def getStats_def performMaintenance_def not_initialized_throws
      searchMemories_initializes storeMemory_initializes)

lemma new_service_initialize: "fst (initialize example_world new_service) = Inr ()"
  by (simp add: initialize_def testConnection_def example_world_def getMemoryCount_def
      ensureInitialized_vs_def new_service_def closed_store_def)

theorem no_auto_initialization_witness:
  "\<not> initialized new_service
   \<and> deleteMemory example_world new_service 1 = (Inl MemoryServiceNotInitialized, new_service)
   \<and> getStats example_config example_world new_service
       = (Inl MemoryServiceNotInitialized, new_service)
   \<and> performMaintenance example_world new_service
       = (Inl MemoryServiceNotInitialized, new_service)
   \<and> fst (initialize example_world new_service) = Inr ()
   \<and> initialized (snd (searchMemories example_config example_world new_service ''hello''
                          None None None))
   \<and> initialized (snd (storeMemory example_world new_service ''hello'' ''hi'' None None None))"
  using no_auto_initialization [of new_service example_world 1 example_config "''hello''"
      None None None "''hello''" "''hi''" None] new_service_initialize
  by (simp add: new_service_def)

section \<open>Storing a record: persistence\<close>

lemma storeMemory_vs_result:
  assumes "ensureInitialized_vs w vs = Inr opened" and "db opened = Some d" and "\<not> sql_throws w"
  shows "storeMemory_vs w vs e =
           (Inr (e\<lparr>entry_id := Some (next_rowid d)\<rparr>),
            saveDatabase w (opened\<lparr>db := Some (snd (insert_memory e d))\<rparr>))"
  using assms by (simp add: storeMemory_vs_def insert_memory_def Let_def)

lemma example_store_open: "ensureInitialized_vs w example_store = Inr example_store"
  by (simp add: ensureInitialized_vs_def example_store_def)

lemma example_next_rowid: "next_rowid example_database = 5"
  by (simp add: next_rowid_def example_database_def example_row_def)








section \<open>Storing a record, then reading the most recent one\<close>

lemma foldr_insert_newest:
  fixes key :: "'a \<Rightarrow> int"
  assumes "\<forall>y \<in> set ys. key y < key x"
  shows "foldr (insert_cmp (\<lambda>a b. key b - key a)) ys [x]
       = x # foldr (insert_cmp (\<lambda>a b. key b - key a)) ys []"
  using assms by (induction ys) auto

lemma array_sort_newest_last:
  fixes key :: "'a \<Rightarrow> int"
  assumes "\<forall>y \<in> set ys. key y < key x"
  shows "array_sort (\<lambda>a b. key b - key a) (ys @ [x]) = x # array_sort (\<lambda>a b. key b - key a) ys"
  using foldr_insert_newest [OF assms] by (simp add: array_sort_def)

lemma or_null_idem: "s \<noteq> Some [] \<Longrightarrow> or_null (or_null s) = s"
  by (cases s) (auto simp: or_null_def truthy_def)

lemma or_null_truthy: "truthy c \<Longrightarrow> or_null s = c \<longleftrightarrow> s = c"
  by (cases s) (auto simp: or_null_def truthy_def)

lemma insert_memory_rows:
  "memories (snd (insert_memory e d)) = memories d @ [stored_row e d]"
  by (simp add: stored_row_def insert_memory_def Let_def)

lemma stored_row_fields:
  "row_timestamp (stored_row e d) = timestamp e"
  "channel_id (stored_row e d) = or_null (channelId e)"
  "user_id (stored_row e d) = or_null (userId e)"
  "user_name (stored_row e d) = or_null (userName e)"
  "row_metadata (stored_row e d) = metadata e"
  "row_id (stored_row e d) = next_rowid d"
  by (simp_all add: stored_row_def insert_memory_def Let_def)

lemma entry_of_stored_row:
  assumes "channelId e \<noteq> Some []" and "userId e \<noteq> Some []" and "userName e \<noteq> Some []"
  shows "entry_of_row (stored_row e d) = e\<lparr>entry_id := Some (next_rowid d)\<rparr>"
  using assms
  by (simp add: stored_row_def insert_memory_def Let_def entry_of_row_def or_null_idem)

lemma select_after_insert:
  assumes "\<forall>r \<in> set (memories d). row_timestamp r < timestamp e"
    and "row_matches c u (stored_row e d)"
  shows "select_memories (snd (insert_memory e d)) c u
       = stored_row e d # select_memories d c u"
proof -
  have "\<forall>r \<in> set (filter (row_matches c u) (memories d)).
          row_timestamp r < row_timestamp (stored_row e d)"
    using assms(1) by (simp add: stored_row_fields)
  then show ?thesis
    using assms(2)
    by (simp add: select_memories_def insert_memory_rows array_sort_newest_last)
qed

lemma recent_after_store:
  assumes "ensureInitialized_vs w vs = Inr opened" and "db opened = Some d"
    and "\<not> sql_throws w"
    and "\<forall>r \<in> set (memories d). row_timestamp r < timestamp e"
    and "row_matches c u (stored_row e d)"
  shows "fst (getRecentMemories_vs cfg w (snd (storeMemory_vs w vs e)) (Some 1) c u)
       = Inr [entry_of_row (stored_row e d)]"
proof -
  let ?after = "saveDatabase w (opened\<lparr>db := Some (snd (insert_memory e d))\<rparr>)"
  have after: "snd (storeMemory_vs w vs e) = ?after"
    by (simp add: storeMemory_vs_result [OF assms(1-3)])
  have "vs_initialized opened"
    using assms(1) by (auto simp: ensureInitialized_vs_def split: if_splits open_result.splits)
  then have "vs_initialized ?after" and "db ?after = Some (snd (insert_memory e d))"
    by (simp_all add: saveDatabase_def)
  then have "ensureInitialized_vs w ?after = Inr ?after"
    by (simp add: ensureInitialized_vs_def)
  then show ?thesis
    using assms(3) \<open>db ?after = Some (snd (insert_memory e d))\<close>
    by (simp add: after getRecentMemories_vs_def select_after_insert [OF assms(4,5)]
        sql_limit_def limit_or_default_def)
qed

lemma example_entry_newest:
  "\<forall>r \<in> set (memories example_database). row_timestamp r < timestamp example_entry"
  by (simp add: example_database_def example_row_def example_entry_def)

text \<open>
  C9, as stated: for every record newer than every stored record, storing it and then
  reading the one most recent record returns the record with all its fields but the id as
  they were. It fails for a record whose channel is the empty string: the record read back
  has no channel.
\<close>

theorem put_then_recent_counterexample:
  "list_all (\<lambda>r. row_timestamp r < timestamp blank_channel_entry) (memories example_database)
   \<and> fst (storeMemory_vs example_world example_store blank_channel_entry)
       = Inr (blank_channel_entry\<lparr>entry_id := Some 5\<rparr>)
   \<and> fst (getRecentMemories_vs example_config example_world
            (snd (storeMemory_vs example_world example_store blank_channel_entry)) (Some 1)
            None None)
       = Inr [blank_channel_entry\<lparr>entry_id := Some 5, channelId := None\<rparr>]
   \<and> blank_channel_entry\<lparr>entry_id := Some 5, channelId := None\<rparr>
       \<noteq> blank_channel_entry\<lparr>entry_id := Some 5\<rparr>"
proof -
  have open': "db example_store = Some example_database" "\<not> sql_throws example_world"
    by (simp_all add: example_store_def example_world_def)
  have newest: "\<forall>r \<in> set (memories example_database).
      row_timestamp r < timestamp blank_channel_entry"
    using example_entry_newest by (simp add: blank_channel_entry_def)
  have "row_matches None None (stored_row blank_channel_entry example_database)"
    by (simp add: row_matches_def truthy_def)
  from recent_after_store [OF example_store_open open' newest this]
  have "fst (getRecentMemories_vs example_config example_world
            (snd (storeMemory_vs example_world example_store blank_channel_entry)) (Some 1)
            None None)
       = Inr [entry_of_row (stored_row blank_channel_entry example_database)]" .
  moreover have "entry_of_row (stored_row blank_channel_entry example_database)
      = blank_channel_entry\<lparr>entry_id := Some 5, channelId := None\<rparr>"
    by (simp add: stored_row_def insert_memory_def Let_def entry_of_row_def example_next_rowid
        blank_channel_entry_def example_entry_def or_null_def truthy_def)
  moreover have "blank_channel_entry\<lparr>entry_id := Some 5, channelId := None\<rparr>
      \<noteq> blank_channel_entry\<lparr>entry_id := Some 5\<rparr>"
  proof
    assume "blank_channel_entry\<lparr>entry_id := Some 5, channelId := None\<rparr>
      = blank_channel_entry\<lparr>entry_id := Some 5\<rparr>"
    then have "channelId (blank_channel_entry\<lparr>entry_id := Some 5, channelId := None\<rparr>)
      = channelId (blank_channel_entry\<lparr>entry_id := Some 5\<rparr>)"
      by (rule arg_cong)
    then show False
      by (simp add: blank_channel_entry_def)
  qed
  ultimately show ?thesis
    using newest
    by (simp add: storeMemory_vs_result [OF example_store_open open'] example_next_rowid
        list_all_iff)
qed


text \<open>
  C9, amended: for every record newer than every stored record whose \<open>channelId\<close>,
  \<open>userId\<close> and \<open>userName\<close> are each absent or a non-empty string, on a store that opens
  and whose SQL does not throw, storing the record and then reading the one most recent
  record under a filter that the record passes returns exactly the record, its id set to
  the new rowid. (An optional field given as the empty string is stored as NULL and read
  back as absent.)
\<close>

theorem put_then_recent:
  assumes "ensureInitialized_vs w vs = Inr opened" and "db opened = Some d"
    and "\<not> sql_throws w"
    and "\<forall>r \<in> set (memories d). row_timestamp r < timestamp e"
    and "channelId e \<noteq> Some []" and "userId e \<noteq> Some []" and "userName e \<noteq> Some []"
    and "truthy c \<longrightarrow> channelId e = c" and "truthy u \<longrightarrow> userId e = u"
  shows "fst (storeMemory_vs w vs e) = Inr (e\<lparr>entry_id := Some (next_rowid d)\<rparr>)
       \<and> fst (getRecentMemories_vs cfg w (snd (storeMemory_vs w vs e)) (Some 1) c u)
           = Inr [e\<lparr>entry_id := Some (next_rowid d)\<rparr>]"
proof -
  have "row_matches c u (stored_row e d)"
    using assms(8,9) by (auto simp: row_matches_def stored_row_fields or_null_truthy)
  from recent_after_store [OF assms(1-4) this] show ?thesis
    by (simp add: storeMemory_vs_result [OF assms(1-3)] entry_of_stored_row [OF assms(5-7)])
qed

theorem put_then_recent_witness:
  "fst (storeMemory_vs example_world example_store example_entry)
     = Inr (example_entry\<lparr>entry_id := Some 5\<rparr>)
   \<and> fst (getRecentMemories_vs example_config example_world
            (snd (storeMemory_vs example_world example_store example_entry)) (Some 1)
            (Some ''C1'') None)
       = Inr [example_entry\<lparr>entry_id := Some 5\<rparr>]"
  using put_then_recent [where w = example_world and vs = example_store
      and opened = example_store and d = example_database and e = example_entry
      and c = "Some ''C1''" and u = None and cfg = example_config]
    example_entry_newest
  by (simp add: example_store_open example_next_rowid)
     (simp add: example_store_def example_world_def example_entry_def truthy_def)

section \<open>Storing a memory: the user name in the metadata\<close>

lemma storeMemory_vs_stored:
  assumes "storeMemory_vs w vs e = (Inr stored, vs')"
  shows "\<exists>opened d. ensureInitialized_vs w vs = Inr opened \<and> db opened = Some d
           \<and> \<not> sql_throws w
           \<and> stored = e\<lparr>entry_id := Some (next_rowid d)\<rparr>
           \<and> vs' = saveDatabase w (opened\<lparr>db := Some (snd (insert_memory e d))\<rparr>)"
  using assms
  by (auto simp: storeMemory_vs_def insert_memory_def Let_def
      split: sum.splits option.splits if_splits)

lemma storeMemory_stored:
  assumes "storeMemory w s ui br c u md = (Inr stored, s')"
  shows "\<exists>emb vs'. storeMemory_vs w (vectorStore (snd (initialize_if_needed w s)))
                      (build_entry w ui br emb c u md) = (Inr stored, vs')
                 \<and> vectorStore s' = vs'"
  using assms
  by (auto simp: storeMemory_def split: prod.splits sum.splits)

lemma or_null_or_null: "or_null (or_null s) = or_null s"
  by (cases s) (auto simp: or_null_def truthy_def)

lemma entry_of_built_row:
  "entry_of_row (stored_row (build_entry w ui br emb c u md) d)
     = (build_entry w ui br emb c u md)\<lparr>entry_id := Some (next_rowid d)\<rparr>"
  by (simp add: stored_row_def insert_memory_def Let_def entry_of_row_def build_entry_def
      or_null_or_null)

lemma remainingMetadata_keys: "''userName'' \<notin> fst ` set (remainingMetadata md)"
  by (cases md) (auto simp: remainingMetadata_def)

lemma remainingMetadata_empty:
  "remainingMetadata (Some m) = [] \<longleftrightarrow> (\<forall>k \<in> fst ` set m. k = ''userName'')"
  by (auto simp: remainingMetadata_def filter_empty_conv)

lemma example_service_ready:
  "initialize_if_needed w example_service = (Inr (), example_service)"
  by (simp add: initialize_if_needed_def example_service_def)

lemma example_embedding: "generateEmbedding example_world ''hi'' = Inr [1, 0]"
  by (simp add: generateEmbedding_def example_world_def)

lemma example_storeMemory:
  "fst (storeMemory example_world example_service ''hi'' ''hello'' (Some ''C1'') (Some ''U1'') md)
     = Inr ((build_entry example_world ''hi'' ''hello'' [1, 0] (Some ''C1'') (Some ''U1'') md)
              \<lparr>entry_id := Some 5\<rparr>)"
proof -
  have "vectorStore example_service = example_store"
    by (simp add: example_service_def)
  moreover have "db example_store = Some example_database" "\<not> sql_throws example_world"
    by (simp_all add: example_store_def example_world_def)
  ultimately show ?thesis
    by (simp add: storeMemory_def example_service_ready example_embedding example_next_rowid
        storeMemory_vs_result [OF example_store_open])
qed

text \<open>
  C10, as stated: whenever the metadata given to \<^const>\<open>storeMemory\<close> has a \<open>userName\<close>
  key, the persisted record has that key's value as its user name. It fails when the value
  is the empty string: the record is stored without a user name.
\<close>

theorem empty_userName_not_promoted_counterexample:
  "map_of [(''userName'', [])] ''userName'' = Some []
   \<and> fst (storeMemory example_world example_service ''hi'' ''hello'' (Some ''C1'') (Some ''U1'')
          (Some [(''userName'', [])]))
     = Inr \<lparr>entry_id = Some 5, timestamp = 50, userInput = ''hi'', botResponse = ''hello'',
            embedding = [1, 0], channelId = Some ''C1'', userId = Some ''U1'',
            userName = None, metadata = None\<rparr>"
  unfolding example_storeMemory
  by (simp add: build_entry_def example_world_def or_null_def truthy_def
      metadata_userName_def remainingMetadata_def)


text \<open>
  C10, amended: whenever \<^const>\<open>storeMemory\<close> succeeds on a metadata mapping with a
  \<open>userName\<close> key, the persisted record has that key's value as its user name when the
  value is a non-empty string, and no user name when the value is empty; its metadata never
  has a \<open>userName\<close> key, being the given mapping without that key; and it has no metadata
  at all exactly when the mapping has no other key. The last row of the table, read back,
  is the record returned.
\<close>

theorem storeMemory_promotes_userName:
  assumes "storeMemory w s ui br c u (Some m) = (Inr stored, s')"
    and "map_of m ''userName'' = Some n"
  shows "userName stored = (if n = [] then None else Some n)
       \<and> (\<forall>kept. metadata stored = Some kept \<longrightarrow>
             ''userName'' \<notin> fst ` set kept \<and> kept = filter (\<lambda>(k, v). k \<noteq> ''userName'') m)
       \<and> (metadata stored = None \<longleftrightarrow> (\<forall>k \<in> fst ` set m. k = ''userName''))
       \<and> (\<exists>d. db (vectorStore s') = Some d \<and> memories d \<noteq> []
              \<and> entry_of_row (last (memories d)) = stored)"
proof -
  obtain emb vs' where vs: "storeMemory_vs w (vectorStore (snd (initialize_if_needed w s)))
        (build_entry w ui br emb c u (Some m)) = (Inr stored, vs')" "vectorStore s' = vs'"
    using storeMemory_stored [OF assms(1)] by blast
  let ?e = "build_entry w ui br emb c u (Some m)"
  obtain opened d where d: "stored = ?e\<lparr>entry_id := Some (next_rowid d)\<rparr>"
      "vs' = saveDatabase w (opened\<lparr>db := Some (snd (insert_memory ?e d))\<rparr>)"
    using storeMemory_vs_stored [OF vs(1)] by blast
  have name: "userName stored = (if n = [] then None else Some n)"
    using assms(2) by (simp add: d(1) build_entry_def metadata_userName_def or_null_def truthy_def)
  have kept: "metadata stored = (if remainingMetadata (Some m) = [] then None
                                  else Some (remainingMetadata (Some m)))"
    by (simp add: d(1) build_entry_def)
  have "db vs' = Some (snd (insert_memory ?e d))"
    by (simp add: d(2) saveDatabase_def)
  moreover have "memories (snd (insert_memory ?e d)) \<noteq> []"
    by (simp add: insert_memory_rows)
  moreover have "entry_of_row (last (memories (snd (insert_memory ?e d)))) = stored"
    using entry_of_built_row [of w ui br emb c u "Some m" d] by (simp add: stored_row_def d(1))
  ultimately have row: "\<exists>d. db (vectorStore s') = Some d \<and> memories d \<noteq> []
              \<and> entry_of_row (last (memories d)) = stored"
    using vs(2) by blast
  have "''userName'' \<notin> fst ` set kept \<and> kept = filter (\<lambda>(k, v). k \<noteq> ''userName'') m"
    if "metadata stored = Some kept" for kept
  proof -
    from that kept have "kept = remainingMetadata (Some m)"
      by (simp split: if_splits)
    then show ?thesis
      using remainingMetadata_keys [of "Some m"] by (simp add: remainingMetadata_def)
  qed
  moreover have "metadata stored = None \<longleftrightarrow> (\<forall>k \<in> fst ` set m. k = ''userName'')"
    using kept remainingMetadata_empty [of m] by simp
  ultimately show ?thesis
    using name row by blast
qed

theorem storeMemory_promotes_userName_witness:
  "fst (storeMemory example_world example_service ''hi'' ''hello'' (Some ''C1'') (Some ''U1'')
          (Some [(''userName'', ''Ada''), (''team'', ''ops'')]))
     = Inr \<lparr>entry_id = Some 5, timestamp = 50, userInput = ''hi'', botResponse = ''hello'',
            embedding = [1, 0], channelId = Some ''C1'', userId = Some ''U1'',
            userName = Some ''Ada'', metadata = Some [(''team'', ''ops'')]\<rparr>
   \<and> map_of [(''userName'', ''Ada''), (''team'', ''ops'')] ''userName'' = Some ''Ada''
   \<and> userName \<lparr>entry_id = Some 5, timestamp = 50, userInput = ''hi'', botResponse = ''hello'',
            embedding = [1, 0], channelId = Some ''C1'', userId = Some ''U1'',
            userName = Some ''Ada'', metadata = Some [(''team'', ''ops'')]\<rparr> = Some ''Ada''"
proof -
  let ?md = "Some [(''userName'', ''Ada''), (''team'', ''ops'')]"
  let ?call = "storeMemory example_world example_service ''hi'' ''hello'' (Some ''C1'')
      (Some ''U1'') ?md"
  have r: "fst ?call
     = Inr \<lparr>entry_id = Some 5, timestamp = 50, userInput = ''hi'', botResponse = ''hello'',
            embedding = [1, 0], channelId = Some ''C1'', userId = Some ''U1'',
            userName = Some ''Ada'', metadata = Some [(''team'', ''ops'')]\<rparr>"
    unfolding example_storeMemory
    by (simp add: build_entry_def example_world_def or_null_def truthy_def
        metadata_userName_def remainingMetadata_def)
  then have "?call = (Inr \<lparr>entry_id = Some 5, timestamp = 50, userInput = ''hi'',
            botResponse = ''hello'', embedding = [1, 0], channelId = Some ''C1'',
            userId = Some ''U1'', userName = Some ''Ada'',
            metadata = Some [(''team'', ''ops'')]\<rparr>, snd ?call)"
    by (metis prod.collapse)
  from storeMemory_promotes_userName [OF this, of "''Ada''"] r show ?thesis
    by simp
qed

section \<open>getEnhancedContext\<close>

lemma formatMemoriesForLLM_Nil: "formatMemoriesForLLM w [] = Inr []"
  by (simp add: formatMemoriesForLLM_def)

lemma memories_header_nonempty: "memories_header \<noteq> []"
  by (simp add: memories_header_def)

lemma formatMemoriesForLLM_nonempty:
  assumes "found \<noteq> []" and "formatMemoriesForLLM w found = Inr block"
  shows "block \<noteq> []"
  using assms memories_header_nonempty
  by (auto simp: formatMemoriesForLLM_def split: if_splits sum.splits)

lemma getEnhancedContext_init_failed:
  assumes "fst (initialize_if_needed w s) = Inl e"
  shows "fst (getEnhancedContext cfg w s q c u n) = Inr q"
  using assms by (cases "initialize_if_needed w s") (simp add: getEnhancedContext_def)

lemma getEnhancedContext_no_memories:
  assumes "initialize_if_needed w s = (Inr (), ready)"
    and "fst (searchMemories cfg w ready q c u None) = Inr []"
  shows "fst (getEnhancedContext cfg w s q c u n)
       = Inr ((if truthy n then interpolate n @ '' asks: '' else []) @ q)"
  using assms
  by (cases "searchMemories cfg w ready q c u None")
     (simp add: getEnhancedContext_def formatMemoriesForLLM_Nil)

lemma getEnhancedContext_memories:
  assumes "initialize_if_needed w s = (Inr (), ready)"
    and "fst (searchMemories cfg w ready q c u None) = Inr found"
    and "found \<noteq> []"
    and "formatMemoriesForLLM w found = Inr block"
  shows "fst (getEnhancedContext cfg w s q c u n)
       = Inr (block @ ''\<newline>Current Question: ''
              @ (if truthy n then interpolate n @ '' asks: '' else []) @ q)"
  using assms formatMemoriesForLLM_nonempty [OF assms(3,4)]
  by (cases "searchMemories cfg w ready q c u None") (simp add: getEnhancedContext_def)

lemma getEnhancedContext_format_failed:
  assumes "initialize_if_needed w s = (Inr (), ready)"
    and "fst (searchMemories cfg w ready q c u None) = Inr found"
    and "formatMemoriesForLLM w found = Inl e"
  shows "fst (getEnhancedContext cfg w s q c u n) = Inr q"
  using assms
  by (cases "searchMemories cfg w ready q c u None") (simp add: getEnhancedContext_def)

lemma provider_down_hi: "generateEmbedding provider_down ''hi'' = Inl ApiError"
  by (simp add: generateEmbedding_def provider_down_def)

lemma unreachable_backend_init:
  "fst (initialize_if_needed unreachable_backend new_service)
     = Inl (InitializationFailed ConnectionTestFailed)"
  by (simp add: initialize_if_needed_def new_service_def initialize_def testConnection_def
      unreachable_backend_def)

lemma example_searchMemories:
  "fst (searchMemories example_config example_world example_service ''hi'' None None None) =
     Inr [score_result [1, 0] (example_row 2 20 [1, 0]),
          score_result [1, 0] (example_row 1 10 [1, 0]),
          score_result [1, 0] (example_row 4 40 [4, 3])]"
proof -
  have "vectorStore example_service = example_store"
    by (simp add: example_service_def)
  moreover have "limit_or_default example_config None = 5"
    by (simp add: limit_or_default_def example_config_def)
  ultimately show ?thesis
    using example_search
    by (cases "searchSimilar example_config example_world example_store [1, 0] (Some 5) None None")
       (simp add: searchMemories_def searchMemories_try_def example_service_ready
        example_embedding)
qed

lemma example_format:
  "\<exists>block. formatMemoriesForLLM example_world
       [score_result [1, 0] (example_row 2 20 [1, 0]),
        score_result [1, 0] (example_row 1 10 [1, 0]),
        score_result [1, 0] (example_row 4 40 [4, 3])] = Inr block"
  by (simp add: formatMemoriesForLLM_def toISOString_def score_result_def entry_of_row_def
      example_row_def)

text \<open>
  C7, as stated: \<^const>\<open>getEnhancedContext\<close> returns the query unchanged on any internal
  failure. It fails: on an initialized service whose embedding provider fails, called with
  the display name Bob, the result is the query with the name prefix, not the query.
\<close>

theorem search_failure_keeps_name_prefix_counterexample:
  "generateEmbedding provider_down ''hi'' = Inl ApiError
   \<and> fst (getEnhancedContext example_config provider_down example_service ''hi'' None None
            (Some ''Bob'')) = Inr ''Bob asks: hi''
   \<and> ''Bob asks: hi'' \<noteq> ''hi''"
proof -
  have "fst (searchMemories example_config provider_down example_service ''hi'' None None None)
      = Inr []"
    using provider_down_hi by (rule searchMemories_embedding_failed)
  with example_service_ready [of provider_down]
  have "fst (getEnhancedContext example_config provider_down example_service ''hi'' None None
            (Some ''Bob''))
      = Inr ((if truthy (Some ''Bob'') then interpolate (Some ''Bob'') @ '' asks: '' else [])
             @ ''hi'')"
    by (rule getEnhancedContext_no_memories)
  then show ?thesis
    using provider_down_hi by (simp add: truthy_def interpolate_def)
qed

text \<open>
  C7, amended. \<^const>\<open>getEnhancedContext\<close> returns the query unchanged when
  self-initialization fails, and when formatting the memories raises. Otherwise, with the
  memories that \<^const>\<open>searchMemories\<close> returns: if there is at least one, the formatted
  block (which is not empty), the line \<open>Current Question:\<close> and the query, the query
  preceded by the display name and \<open>asks:\<close> when a display name is known; if there is
  none, the display name, \<open>asks:\<close> and the query when a display name is known, and the
  query unchanged when it is not. A failure inside \<^const>\<open>searchMemories\<close> (the embedding
  provider, the SQL of the store) counts as no memories: the name prefix is still added.
\<close>

theorem getEnhancedContext_cases:
  "((\<exists>e. fst (initialize_if_needed w s) = Inl e) \<longrightarrow>
      fst (getEnhancedContext cfg w s q c u n) = Inr q)
   \<and> (\<forall>ready found.
         initialize_if_needed w s = (Inr (), ready)
         \<and> fst (searchMemories cfg w ready q c u None) = Inr found \<longrightarrow>
           (found = [] \<longrightarrow>
              fst (getEnhancedContext cfg w s q c u n)
                = Inr ((if truthy n then interpolate n @ '' asks: '' else []) @ q))
         \<and> (found \<noteq> [] \<longrightarrow>
              (\<forall>block. formatMemoriesForLLM w found = Inr block \<longrightarrow>
                 block \<noteq> []
                 \<and> fst (getEnhancedContext cfg w s q c u n)
                     = Inr (block @ ''\<newline>Current Question: ''
                            @ (if truthy n then interpolate n @ '' asks: '' else []) @ q))
            \<and> (\<forall>e. formatMemoriesForLLM w found = Inl e \<longrightarrow>
                 fst (getEnhancedContext cfg w s q c u n) = Inr q)))
   \<and> (\<forall>ready.
         initialize_if_needed w s = (Inr (), ready)
         \<and> ((\<exists>e. generateEmbedding w q = Inl e) \<or> sql_throws w) \<longrightarrow>
           fst (getEnhancedContext cfg w s q c u n)
             = Inr ((if truthy n then interpolate n @ '' asks: '' else []) @ q))"
proof (intro conjI allI impI)
  assume "\<exists>e. fst (initialize_if_needed w s) = Inl e"
  then obtain e where "fst (initialize_if_needed w s) = Inl e" ..
  then show "fst (getEnhancedContext cfg w s q c u n) = Inr q"
    by (rule getEnhancedContext_init_failed)
next
  fix ready found
  assume a: "initialize_if_needed w s = (Inr (), ready)
      \<and> fst (searchMemories cfg w ready q c u None) = Inr found" and "found = []"
  then have "initialize_if_needed w s = (Inr (), ready)"
    and "fst (searchMemories cfg w ready q c u None) = Inr []"
    by simp_all
  then show "fst (getEnhancedContext cfg w s q c u n)
      = Inr ((if truthy n then interpolate n @ '' asks: '' else []) @ q)"
    by (rule getEnhancedContext_no_memories)
next
  fix ready found block
  assume a: "initialize_if_needed w s = (Inr (), ready)
      \<and> fst (searchMemories cfg w ready q c u None) = Inr found"
    and found: "found \<noteq> []" and block: "formatMemoriesForLLM w found = Inr block"
  from found block show "block \<noteq> []"
    by (rule formatMemoriesForLLM_nonempty)
  from a have "initialize_if_needed w s = (Inr (), ready)"
    and "fst (searchMemories cfg w ready q c u None) = Inr found"
    by simp_all
  then show "fst (getEnhancedContext cfg w s q c u n)
      = Inr (block @ ''\<newline>Current Question: ''
             @ (if truthy n then interpolate n @ '' asks: '' else []) @ q)"
    using found block by (rule getEnhancedContext_memories)
next
  fix ready found e
  assume a: "initialize_if_needed w s = (Inr (), ready)
      \<and> fst (searchMemories cfg w ready q c u None) = Inr found"
    and failed: "formatMemoriesForLLM w found = Inl e"
  from a have "initialize_if_needed w s = (Inr (), ready)"
    and "fst (searchMemories cfg w ready q c u None) = Inr found"
    by simp_all
  then show "fst (getEnhancedContext cfg w s q c u n) = Inr q"
    using failed by (rule getEnhancedContext_format_failed)
next
  fix ready
  assume a: "initialize_if_needed w s = (Inr (), ready)
      \<and> ((\<exists>e. generateEmbedding w q = Inl e) \<or> sql_throws w)"
  then have "fst (searchMemories cfg w ready q c u None) = Inr []"
    using searchMemories_embedding_failed searchMemories_sql_throws by blast
  with a show "fst (getEnhancedContext cfg w s q c u n)
      = Inr ((if truthy n then interpolate n @ '' asks: '' else []) @ q)"
    using getEnhancedContext_no_memories by blast
qed

theorem getEnhancedContext_cases_witness:
  "fst (initialize_if_needed unreachable_backend new_service)
     = Inl (InitializationFailed ConnectionTestFailed)
   \<and> fst (getEnhancedContext example_config unreachable_backend new_service ''hi'' None None
            (Some ''Bob'')) = Inr ''hi''
   \<and> initialize_if_needed provider_down example_service = (Inr (), example_service)
   \<and> generateEmbedding provider_down ''hi'' = Inl ApiError
   \<and> fst (getEnhancedContext example_config provider_down example_service ''hi'' None None
            (Some ''Bob'')) = Inr ''Bob asks: hi''
   \<and> (\<exists>block. formatMemoriesForLLM example_world
          [score_result [1, 0] (example_row 2 20 [1, 0]),
           score_result [1, 0] (example_row 1 10 [1, 0]),
           score_result [1, 0] (example_row 4 40 [4, 3])] = Inr block
        \<and> block \<noteq> []
        \<and> fst (getEnhancedContext example_config example_world example_service ''hi'' None None
                 (Some ''Bob'')) = Inr (block @ ''\<newline>Current Question: Bob asks: hi''))"
proof -
  have one: "fst (getEnhancedContext example_config unreachable_backend new_service ''hi'' None
      None (Some ''Bob'')) = Inr ''hi''"
    using getEnhancedContext_cases [of unreachable_backend new_service example_config "''hi''"
      None None "Some ''Bob''"] unreachable_backend_init
    by simp
  have two: "fst (getEnhancedContext example_config provider_down example_service ''hi'' None
      None (Some ''Bob'')) = Inr ''Bob asks: hi''"
    using getEnhancedContext_cases [of provider_down example_service example_config "''hi''"
      None None "Some ''Bob''"] provider_down_hi example_service_ready [of provider_down]
    by (simp add: truthy_def interpolate_def)
  obtain block where block: "formatMemoriesForLLM example_world
          [score_result [1, 0] (example_row 2 20 [1, 0]),
           score_result [1, 0] (example_row 1 10 [1, 0]),
           score_result [1, 0] (example_row 4 40 [4, 3])] = Inr block"
    using example_format by blast
  have three: "block \<noteq> []
        \<and> fst (getEnhancedContext example_config example_world example_service ''hi'' None None
                 (Some ''Bob'')) = Inr (block @ ''\<newline>Current Question: Bob asks: hi'')"
    using getEnhancedContext_cases [of example_world example_service example_config "''hi''"
      None None "Some ''Bob''"] example_service_ready [of example_world] example_searchMemories
      block
    by (simp add: truthy_def interpolate_def)
  show ?thesis
    using one two three block unreachable_backend_init provider_down_hi
      example_service_ready [of provider_down]
    by blast
qed

end
